theory Spec2Isabelle
  imports Main "HOL-Library.AList"
begin

section \<open>JavaScript values\<close>

text \<open>
  The page script \<^verbatim>\<open>script.js\<close> tests its inputs for truthiness and reads the
  \<^verbatim>\<open>message\<close> property of whatever a platform call throws, so values are modelled
  as JavaScript has them. A number is NaN, an infinity, negative zero or a finite
  value \<open>m * 2 ^ e\<close>; only whether it is zero matters below. An object is the list of
  the properties a read can reach (own and inherited).
\<close>

datatype jsnum = NaN | PosInfinity | NegInfinity | NegZero | Fin_num int int

datatype jsval =
    JUndefined
  | JNull
  | JBool bool
  | JNum jsnum
  | JBigInt int
  | JStr string
  | JSymbol string
  | JObj "(string \<times> jsval) list"

text \<open>ToBoolean: the falsy values are undefined, null, false, +0, -0, NaN, 0n and ''.\<close>

fun truthy :: "jsval \<Rightarrow> bool" where
  "truthy JUndefined = False"
| "truthy JNull = False"
| "truthy (JBool b) = b"
| "truthy (JNum NaN) = False"
| "truthy (JNum NegZero) = False"
| "truthy (JNum (Fin_num m e)) = (m \<noteq> 0)"
| "truthy (JNum PosInfinity) = True"
| "truthy (JNum NegInfinity) = True"
| "truthy (JBigInt i) = (i \<noteq> 0)"
| "truthy (JStr s) = (s \<noteq> [])"
| "truthy (JSymbol d) = True"
| "truthy (JObj ps) = True"

text \<open>
  \<^verbatim>\<open>err.message\<close> on a truthy value: an object yields the property or undefined; a
  primitive is read through its wrapper, which has no \<^verbatim>\<open>message\<close>. The read is only
  made behind \<^verbatim>\<open>err &&\<close>, so it never meets undefined or null.
\<close>

fun get_message :: "jsval \<Rightarrow> jsval" where
  "get_message (JObj ps) = (case map_of ps ''message'' of Some m \<Rightarrow> m | None \<Rightarrow> JUndefined)"
| "get_message v = JUndefined"

section \<open>The page and the platform\<close>

text \<open>
  A node of the live document as the fallback path touches it: its identity, its tag,
  the value assigned to it and its inline style. The conversion of an assigned value to
  a DOM string is the platform's and is not computed here: the node keeps the value it
  was given.
\<close>

record node =
  ident :: nat
  tag :: string
  nvalue :: jsval
  style :: "(string \<times> string) list"

text \<open>The platform calls \<^verbatim>\<open>copyText\<close> makes on the document.\<close>

datatype dom_op =
    CreateElement string
  | SetValue
  | SetStyle string string
  | AppendChild
  | Focus
  | Select
  | ExecCommand string
  | RemoveChild

text \<open>
  Every call the script makes to the platform is recorded, oldest first, so that
  "this path never ran" can be said of a run.
\<close>

datatype event =
    CallWriteText jsval
  | CallDom dom_op
  | ConsoleWarn string jsval
  | ConsoleError string jsval
  | PreventDefault
  | SetTimeout nat

record world =
  body :: "node list"
  activeElement :: "nat option"
  selected :: "nat option"
  clipboard :: "jsval option"
  next_node :: nat
  calls :: "event list"
  statusText :: string
  statusColor :: string
  copyAllText :: string

text \<open>
  What \<^verbatim>\<open>navigator.clipboard.writeText(text)\<close> does when awaited: the promise is
  fulfilled, it is rejected, the call itself throws, or the promise never settles.
\<close>

datatype write_result = Resolves | Rejects jsval | ThrowsSync jsval | NeverSettles

text \<open>
  \<^verbatim>\<open>navigator.clipboard\<close> is missing, or is there without a function
  \<^verbatim>\<open>writeText\<close>, or offers one.
\<close>

datatype clipboard_cap = NoClipboard | NoWriteText | WriteText "jsval \<Rightarrow> write_result"

text \<open>
  The behaviour of the host, which the script cannot choose: the clipboard capability,
  which document calls throw (and what), what \<^verbatim>\<open>execCommand('copy')\<close> reports, and
  the engine's conversion to a string of a value that is not one (it may throw).
\<close>

record platform =
  clipboard_cap :: clipboard_cap
  throws :: "dom_op \<Rightarrow> jsval option"
  execCommand_ok :: bool
  toString :: "jsval \<Rightarrow> jsval + string"

definition log_call :: "event \<Rightarrow> world \<Rightarrow> world" where
  "log_call ev w = w\<lparr>calls := calls w @ [ev]\<rparr>"

section \<open>Computations that may throw\<close>

text \<open>A step takes the world and returns the thrown value (\<open>Inl\<close>) or its result.\<close>

type_synonym 'a js = "world \<Rightarrow> (jsval + 'a) \<times> world"

definition return_js :: "'a \<Rightarrow> 'a js" where
  "return_js x w = (Inr x, w)"

definition bind_js :: "'a js \<Rightarrow> ('a \<Rightarrow> 'b js) \<Rightarrow> 'b js" where
  "bind_js m k w = (case m w of (Inl e, w1) \<Rightarrow> (Inl e, w1) | (Inr x, w1) \<Rightarrow> k x w1)"

text \<open>
  A document call: it is recorded, then it throws if the platform says so, and
  otherwise has its effect.
\<close>

definition dom_call :: "platform \<Rightarrow> dom_op \<Rightarrow> (world \<Rightarrow> 'a \<times> world) \<Rightarrow> 'a js" where
  "dom_call p op act w =
     (let w1 = log_call (CallDom op) w in
      case throws p op of
        Some e \<Rightarrow> (Inl e, w1)
      | None \<Rightarrow> (case act w1 of (x, w2) \<Rightarrow> (Inr x, w2)))"

definition createElement :: "platform \<Rightarrow> string \<Rightarrow> node js" where
  "createElement p t =
     dom_call p (CreateElement t)
       (\<lambda>w. (\<lparr>ident = next_node w, tag = t, nvalue = JStr [], style = []\<rparr>,
             w\<lparr>next_node := Suc (next_node w)\<rparr>))"

definition set_value :: "platform \<Rightarrow> node \<Rightarrow> jsval \<Rightarrow> node js" where
  "set_value p n v = dom_call p SetValue (\<lambda>w. (n\<lparr>nvalue := v\<rparr>, w))"

definition set_style :: "platform \<Rightarrow> node \<Rightarrow> string \<Rightarrow> string \<Rightarrow> node js" where
  "set_style p n k v =
     dom_call p (SetStyle k v) (\<lambda>w. (n\<lparr>style := AList.update k v (style n)\<rparr>, w))"

definition appendChild :: "platform \<Rightarrow> node \<Rightarrow> unit js" where
  "appendChild p n = dom_call p AppendChild (\<lambda>w. ((), w\<lparr>body := body w @ [n]\<rparr>))"

definition focus :: "platform \<Rightarrow> node \<Rightarrow> unit js" where
  "focus p n = dom_call p Focus (\<lambda>w. ((), w\<lparr>activeElement := Some (ident n)\<rparr>))"

definition select :: "platform \<Rightarrow> node \<Rightarrow> unit js" where
  "select p n = dom_call p Select (\<lambda>w. ((), w\<lparr>selected := Some (ident n)\<rparr>))"

text \<open>
  \<^verbatim>\<open>document.execCommand('copy')\<close>: when the platform reports success, the clipboard
  holds the content of the selected node.
\<close>

definition selection_text :: "world \<Rightarrow> jsval option" where
  "selection_text w =
     (case selected w of
        None \<Rightarrow> None
      | Some i \<Rightarrow> map_option nvalue (find (\<lambda>n. ident n = i) (body w)))"

definition execCommand :: "platform \<Rightarrow> string \<Rightarrow> bool js" where
  "execCommand p c =
     dom_call p (ExecCommand c)
       (\<lambda>w. if execCommand_ok p
            then (True, w\<lparr>clipboard := (case selection_text w of Some v \<Rightarrow> Some v
                                                              | None \<Rightarrow> clipboard w)\<rparr>)
            else (False, w))"

text \<open>
  \<^verbatim>\<open>document.body.removeChild(ta)\<close> takes the node with that identity out of the
  body; focus and selection leave with it.
\<close>

definition removeChild :: "platform \<Rightarrow> node \<Rightarrow> unit js" where
  "removeChild p n =
     dom_call p RemoveChild
       (\<lambda>w. ((), w\<lparr>body := filter (\<lambda>m. ident m \<noteq> ident n) (body w),
                   activeElement := (if activeElement w = Some (ident n) then None
                                     else activeElement w),
                   selected := (if selected w = Some (ident n) then None else selected w)\<rparr>))"

section \<open>copyText\<close>

text \<open>
  The outcome object: \<^verbatim>\<open>{ ok: true }\<close> or \<^verbatim>\<open>{ ok: false, message: m }\<close>.
\<close>

record copy_result =
  ok :: bool
  message :: "jsval option"

definition Success :: copy_result where
  "Success = \<lparr>ok = True, message = None\<rparr>"

definition Failure :: "jsval \<Rightarrow> copy_result" where
  "Failure m = \<lparr>ok = False, message = Some m\<rparr>"

text \<open>
  The promise an async function returns, as its caller sees it after awaiting: fulfilled
  with a value, rejected with a thrown value, or never settled.
\<close>

datatype 'a promise = Fulfilled 'a | Rejected jsval | Pending

text \<open>Line 21: \<^verbatim>\<open>!text && text !== ''\<close>.\<close>

definition no_input :: "jsval \<Rightarrow> bool" where
  "no_input text \<longleftrightarrow> \<not> truthy text \<and> text \<noteq> JStr []"

text \<open>
  Lines 26 to 34, the modern API: the block returns \<^verbatim>\<open>{ ok: true }\<close>, or waits for
  ever, or falls through (after the warning of the catch clause, when there was an
  error to catch).
\<close>

datatype primary_outcome = Returned | Hung | FellThrough

definition warn_text :: string where
  "warn_text = ''Clipboard API failed, falling back to legacy method''"

definition primary :: "platform \<Rightarrow> jsval \<Rightarrow> world \<Rightarrow> primary_outcome \<times> world" where
  "primary p text w =
     (case clipboard_cap p of
        WriteText f \<Rightarrow>
          (let w1 = log_call (CallWriteText text) w in
           case f text of
             Resolves \<Rightarrow> (Returned, w1\<lparr>clipboard := Some text\<rparr>)
           | NeverSettles \<Rightarrow> (Hung, w1)
           | Rejects err \<Rightarrow> (FellThrough, log_call (ConsoleWarn warn_text err) w1)
           | ThrowsSync err \<Rightarrow> (FellThrough, log_call (ConsoleWarn warn_text err) w1))
      | NoWriteText \<Rightarrow> (FellThrough, w)
      | NoClipboard \<Rightarrow> (FellThrough, w))"

text \<open>Lines 38 to 51, the body of the second \<^verbatim>\<open>try\<close>.\<close>

definition fallback_body :: "platform \<Rightarrow> jsval \<Rightarrow> copy_result js" where
  "fallback_body p text =
     bind_js (createElement p ''textarea'') (\<lambda>ta0.
     bind_js (set_value p ta0 text) (\<lambda>ta1.
     bind_js (set_style p ta1 ''position'' ''fixed'') (\<lambda>ta2.
     bind_js (set_style p ta2 ''left'' ''-9999px'') (\<lambda>ta3.
     bind_js (set_style p ta3 ''top'' ''0'') (\<lambda>ta.
     bind_js (appendChild p ta) (\<lambda>_.
     bind_js (focus p ta) (\<lambda>_.
     bind_js (select p ta) (\<lambda>_.
     bind_js (execCommand p ''copy'') (\<lambda>successful.
     bind_js (removeChild p ta) (\<lambda>_.
     return_js (if successful then Success
                else Failure (JStr ''Copy command unsuccessful''))))))))))))"

text \<open>Line 54: \<^verbatim>\<open>err && err.message ? err.message : 'Copy failed'\<close>.\<close>

definition catch_message :: "jsval \<Rightarrow> jsval" where
  "catch_message err =
     (if truthy (if truthy err then get_message err else err) then get_message err
      else JStr ''Copy failed'')"

text \<open>Lines 37 to 55, the second \<^verbatim>\<open>try\<close> with its \<^verbatim>\<open>catch\<close>.\<close>

definition fallback :: "platform \<Rightarrow> jsval \<Rightarrow> world \<Rightarrow> copy_result \<times> world" where
  "fallback p text w =
     (case fallback_body p text w of
        (Inr r, w1) \<Rightarrow> (r, w1)
      | (Inl err, w1) \<Rightarrow>
          (Failure (catch_message err), log_call (ConsoleError ''Fallback copy failed'' err) w1))"

text \<open>Lines 20 to 56.\<close>

definition copyText :: "platform \<Rightarrow> jsval \<Rightarrow> world \<Rightarrow> copy_result promise \<times> world" where
  "copyText p text w =
     (if no_input text then (Fulfilled (Failure (JStr ''Nothing to copy'')), w)
      else case primary p text w of
             (Returned, w1) \<Rightarrow> (Fulfilled Success, w1)
           | (Hung, w1) \<Rightarrow> (Pending, w1)
           | (FellThrough, w1) \<Rightarrow> (case fallback p text w1 of (r, w2) \<Rightarrow> (Fulfilled r, w2)))"

section \<open>readTextFromTarget\<close>

text \<open>
  An element as \<^verbatim>\<open>readTextFromTarget\<close> reads it. The document answers a selector with
  an element, with null, or by throwing (a SyntaxError, when the selector is not valid).
\<close>

record element =
  tagName :: string
  el_value :: string
  textContent :: string
  innerText :: string

record document =
  querySelector :: "string \<Rightarrow> jsval + element option"

text \<open>The argument \<^verbatim>\<open>selectorOrEl\<close>: a selector string, or an element reference (or null).\<close>

datatype source = Selector string | Ref "element option"

text \<open>\<^verbatim>\<open>a || b\<close> on strings.\<close>

definition or_str :: "string \<Rightarrow> string \<Rightarrow> string" where
  "or_str a b = (if a \<noteq> [] then a else b)"

text \<open>Line 11.\<close>

definition resolve :: "document \<Rightarrow> source \<Rightarrow> jsval + element option" where
  "resolve doc selectorOrEl =
     (case selectorOrEl of Selector s \<Rightarrow> querySelector doc s | Ref el \<Rightarrow> Inr el)"

text \<open>Lines 10 to 17.\<close>

definition readTextFromTarget :: "document \<Rightarrow> source \<Rightarrow> jsval + string" where
  "readTextFromTarget doc selectorOrEl =
     (case resolve doc selectorOrEl of
        Inl e \<Rightarrow> Inl e
      | Inr None \<Rightarrow> Inr []
      | Inr (Some el) \<Rightarrow>
          (if tagName el = ''INPUT'' \<or> tagName el = ''TEXTAREA'' then Inr (el_value el)
           else Inr (or_str (or_str (textContent el) (innerText el)) [])))"

section \<open>The "copy all" handler\<close>

text \<open>\<^verbatim>\<open>Array.prototype.join\<close> on strings.\<close>

fun join :: "string \<Rightarrow> string list \<Rightarrow> string" where
  "join sep [] = []"
| "join sep [x] = x"
| "join sep (x # y # ys) = x @ sep @ join sep (y # ys)"

definition newline :: string where
  "newline = [CHR 0x0A]"

text \<open>Lines 102 and 108 to 113: the parts pushed in turn, then joined.\<close>

definition combine :: "string \<Rightarrow> string \<Rightarrow> string \<Rightarrow> string \<Rightarrow> string" where
  "combine shortText email messageText code =
     (let parts0 = [];
          parts1 = (if shortText \<noteq> [] then parts0 @ [shortText] else parts0);
          parts2 = (if email \<noteq> [] then parts1 @ [email] else parts1);
          parts3 = (if messageText \<noteq> [] then parts2 @ [messageText] else parts2);
          parts4 = (if code \<noteq> [] then parts3 @ [(''Code:'' @ newline) @ code] else parts3)
      in join (newline @ newline) parts4)"

text \<open>Lines 59 to 62.\<close>

definition showStatus :: "string \<Rightarrow> bool \<Rightarrow> world \<Rightarrow> world" where
  "showStatus msg success w =
     w\<lparr>statusText := msg, statusColor := (if success then [] else ''#ffbaba'')\<rparr>"

text \<open>\<^verbatim>\<open>res.message || 'unknown error'\<close>; a missing property reads as undefined.\<close>

definition message_or_unknown :: "copy_result \<Rightarrow> jsval" where
  "message_or_unknown res =
     (case message res of
        Some m \<Rightarrow> (if truthy m then m else JStr ''unknown error'')
      | None \<Rightarrow> JStr ''unknown error'')"

text \<open>A string literal \<^verbatim>\<open>+\<close> a value.\<close>

definition js_concat :: "platform \<Rightarrow> string \<Rightarrow> jsval \<Rightarrow> jsval + string" where
  "js_concat p s v =
     (case v of
        JStr t \<Rightarrow> Inr (s @ t)
      | _ \<Rightarrow> (case toString p v of Inl e \<Rightarrow> Inl e | Inr t \<Rightarrow> Inr (s @ t)))"

text \<open>
  Lines 119 to 127, what the handler does with the outcome of \<^verbatim>\<open>copyText\<close>. The timer
  that restores the button's label after 1200 ms is recorded as set; its firing is not
  part of the handler's run.
\<close>

definition report :: "platform \<Rightarrow> copy_result promise \<times> world \<Rightarrow> unit promise \<times> world" where
  "report p rw =
     (case rw of
        (Pending, w1) \<Rightarrow> (Pending, w1)
      | (Rejected e, w1) \<Rightarrow> (Rejected e, w1)
      | (Fulfilled res, w1) \<Rightarrow>
          (if ok res
           then (Fulfilled (),
                 log_call (SetTimeout 1200)
                   ((showStatus ''All fields copied to clipboard.'' True w1)
                      \<lparr>copyAllText := ''Copied!''\<rparr>))
           else (case js_concat p ''Copy failed: '' (message_or_unknown res) of
                   Inl e \<Rightarrow> (Rejected e, w1)
                 | Inr s \<Rightarrow> (Fulfilled (), showStatus s False w1))))"

text \<open>Lines 100 to 128.\<close>

definition copyAll_click :: "document \<Rightarrow> platform \<Rightarrow> world \<Rightarrow> unit promise \<times> world" where
  "copyAll_click doc p w0 =
     (let w = log_call PreventDefault w0 in
      case readTextFromTarget doc (Selector ''#shortText'') of
        Inl e \<Rightarrow> (Rejected e, w)
      | Inr shortText \<Rightarrow>
      (case readTextFromTarget doc (Selector ''#email'') of
        Inl e \<Rightarrow> (Rejected e, w)
      | Inr email \<Rightarrow>
      (case readTextFromTarget doc (Selector ''#message'') of
        Inl e \<Rightarrow> (Rejected e, w)
      | Inr messageText \<Rightarrow>
      (case readTextFromTarget doc (Selector ''#codeBlock'') of
        Inl e \<Rightarrow> (Rejected e, w)
      | Inr code \<Rightarrow>
          (let combined = combine shortText email messageText code in
           if combined = [] then (Fulfilled (), showStatus ''Nothing to copy.'' False w)
           else report p (copyText p (JStr combined) w))))))"

section \<open>Auxiliary notions for the proofs\<close>

text \<open>A step only ever adds to the record of platform calls.\<close>

definition appends :: "'a js \<Rightarrow> bool" where
  "appends m \<longleftrightarrow> (\<forall>w. \<exists>es. calls (snd (m w)) = calls w @ es)"

text \<open>The document calls of the fallback path, in the order of lines 38 to 49.\<close>

definition fallback_ops :: "dom_op list" where
  "fallback_ops =
     [CreateElement ''textarea'', SetValue, SetStyle ''position'' ''fixed'',
      SetStyle ''left'' ''-9999px'', SetStyle ''top'' ''0'', AppendChild, Focus, Select,
      ExecCommand ''copy'', RemoveChild]"

text \<open>What the first throwing call of a sequence throws, if any does.\<close>

fun first_throw :: "platform \<Rightarrow> dom_op list \<Rightarrow> jsval option" where
  "first_throw p [] = None"
| "first_throw p (op # ops) =
     (case throws p op of Some e \<Rightarrow> Some e | None \<Rightarrow> first_throw p ops)"

text \<open>The calls of the fallback path up to the insertion, and those after it.\<close>

definition before_insert :: "dom_op list" where
  "before_insert =
     [CreateElement ''textarea'', SetValue, SetStyle ''position'' ''fixed'',
      SetStyle ''left'' ''-9999px'', SetStyle ''top'' ''0'', AppendChild]"

definition after_insert :: "dom_op list" where
  "after_insert = [Focus, Select, ExecCommand ''copy'', RemoveChild]"


text \<open>The identities of the nodes in the document are below the next one handed out.\<close>

definition fresh_ids :: "world \<Rightarrow> bool" where
  "fresh_ids w \<longleftrightarrow> (\<forall>n \<in> set (body w). ident n < next_node w)"




text \<open>The textarea as the fallback path has it when it is inserted.\<close>

definition textarea_of :: "world \<Rightarrow> jsval \<Rightarrow> node" where
  "textarea_of w v =
     \<lparr>ident = next_node w, tag = ''textarea'', nvalue = v,
      style = [(''position'', ''fixed''), (''left'', ''-9999px''), (''top'', ''0'')]\<rparr>"

text \<open>
  The combined text in the words of the specification: the sources that are not empty, in
  the order short text, email, message, code, the code prefixed, joined by a blank line.
\<close>

definition spec_combined :: "string \<Rightarrow> string \<Rightarrow> string \<Rightarrow> string \<Rightarrow> string" where
  "spec_combined shortText email messageText code =
     join (newline @ newline)
       (filter (\<lambda>s. s \<noteq> []) [shortText, email, messageText]
        @ (if code \<noteq> [] then [''Code:'' @ newline @ code] else []))"

section \<open>Sample pages and platforms\<close>

text \<open>An empty page.\<close>

definition page0 :: world where
  "page0 = \<lparr>body = [], activeElement = None, selected = None, clipboard = None,
            next_node = 0, calls = [], statusText = [], statusColor = [],
            copyAllText = ''Copy All Fields''\<rparr>"

text \<open>DOM exceptions as a browser throws them.\<close>

definition denied :: jsval where
  "denied =
     JObj [(''name'', JStr ''NotAllowedError''), (''message'', JStr ''Write permission denied.'')]"

definition invalid_state :: jsval where
  "invalid_state =
     JObj [(''name'', JStr ''InvalidStateError''),
           (''message'', JStr ''The object is in an invalid state.'')]"

text \<open>No clipboard API; no document call throws; the copy command reports \<open>b\<close>.\<close>

definition legacy_only :: "bool \<Rightarrow> platform" where
  "legacy_only b = \<lparr>clipboard_cap = NoClipboard, throws = (\<lambda>op. None), execCommand_ok = b,
                    toString = (\<lambda>v. Inr ''[object Object]'')\<rparr>"

text \<open>No clipboard API; \<^verbatim>\<open>execCommand('copy')\<close> throws \<open>e\<close>.\<close>

definition command_throws :: "jsval \<Rightarrow> platform" where
  "command_throws e =
     \<lparr>clipboard_cap = NoClipboard,
      throws = (\<lambda>op. if op = ExecCommand ''copy'' then Some e else None),
      execCommand_ok = False, toString = (\<lambda>v. Inr ''[object Object]'')\<rparr>"




text \<open>A clipboard API whose \<^verbatim>\<open>writeText\<close> ends as \<open>r\<close>; the copy command succeeds.\<close>

definition modern :: "write_result \<Rightarrow> platform" where
  "modern r = \<lparr>clipboard_cap = WriteText (\<lambda>v. r), throws = (\<lambda>op. None), execCommand_ok = True,
               toString = (\<lambda>v. Inr ''[object Object]'')\<rparr>"

text \<open>What \<^verbatim>\<open>querySelector\<close> throws at a selector that is not valid.\<close>

definition selector_error :: jsval where
  "selector_error =
     JObj [(''name'', JStr ''SyntaxError''), (''message'', JStr ''The provided selector is empty.'')]"

text \<open>A form field holding \<open>s\<close>, and a container whose text is \<open>s\<close>.\<close>

definition field :: "string \<Rightarrow> string \<Rightarrow> element" where
  "field t s = \<lparr>tagName = t, el_value = s, textContent = [], innerText = []\<rparr>"

definition container :: "string \<Rightarrow> string \<Rightarrow> element" where
  "container t s = \<lparr>tagName = t, el_value = [], textContent = s, innerText = s\<rparr>"

text \<open>
  A page with the four sources of the "copy all" button, two of them empty; the empty
  selector is not valid, and nothing else is found.
\<close>

definition form_doc :: document where
  "form_doc =
     \<lparr>querySelector = (\<lambda>s.
        if s = [] then Inl selector_error
        else if s = ''#shortText'' then Inr (Some (field ''INPUT'' ''hello''))
        else if s = ''#email'' then Inr (Some (field ''INPUT'' []))
        else if s = ''#message'' then Inr (Some (field ''TEXTAREA'' []))
        else if s = ''#codeBlock'' then Inr (Some (container ''PRE'' ''world''))
        else Inr None)\<rparr>"

text \<open>A page on which no selector finds anything.\<close>

definition blank_doc :: document where
  "blank_doc = \<lparr>querySelector = (\<lambda>s. Inr None)\<rparr>"

section \<open>The record of platform calls\<close>

lemma appends_return: "appends (return_js x)"
  by (simp add: appends_def return_js_def)

lemma appends_bind:
  assumes "appends m" and "\<And>x. appends (k x)"
  shows "appends (bind_js m k)"
  unfolding appends_def
proof
  fix w
  obtain r w1 where mw: "m w = (r, w1)" by (cases "m w")
  from assms(1) obtain es where es: "calls w1 = calls w @ es"
    unfolding appends_def using mw by (metis snd_conv)
  show "\<exists>es. calls (snd (bind_js m k w)) = calls w @ es"
  proof (cases r)
    case (Inl e)
    then show ?thesis using mw es by (simp add: bind_js_def)
  next
    case (Inr x)
    from assms(2)[of x] obtain fs where "calls (snd (k x w1)) = calls w1 @ fs"
      unfolding appends_def by blast
    then show ?thesis using mw es Inr by (simp add: bind_js_def)
  qed
qed

lemma dom_call_calls:
  assumes "\<And>w. calls (snd (act w)) = calls w"
  shows "calls (snd (dom_call p op act w)) = calls w @ [CallDom op]"
  using assms[of "log_call (CallDom op) w"]
  by (cases "act (log_call (CallDom op) w)")
     (auto simp: dom_call_def Let_def log_call_def split: option.splits)

lemma appends_dom_call:
  assumes "\<And>w. calls (snd (act w)) = calls w"
  shows "appends (dom_call p op act)"
  unfolding appends_def using dom_call_calls[OF assms] by blast

lemma appends_steps:
  "appends (createElement p t)" "appends (set_value p n v)" "appends (set_style p n k s)"
  "appends (appendChild p n)" "appends (focus p n)" "appends (select p n)"
  "appends (execCommand p c)" "appends (removeChild p n)"
  by (auto simp: createElement_def set_value_def set_style_def appendChild_def focus_def
      select_def execCommand_def removeChild_def intro!: appends_dom_call)

lemma bind_first_call:
  assumes "calls (snd (m w)) = calls w @ [ev]" and "\<And>x. appends (k x)"
  shows "\<exists>rest. calls (snd (bind_js m k w)) = calls w @ ev # rest"
proof -
  obtain r w1 where mw: "m w = (r, w1)" by (cases "m w")
  show ?thesis
  proof (cases r)
    case (Inl e)
    then show ?thesis using mw assms(1) by (simp add: bind_js_def)
  next
    case (Inr x)
    from assms(2)[of x] obtain fs where "calls (snd (k x w1)) = calls w1 @ fs"
      unfolding appends_def by blast
    then show ?thesis using mw assms(1) Inr by (simp add: bind_js_def)
  qed
qed

lemma fallback_body_first_call:
  "\<exists>rest. calls (snd (fallback_body p v w)) =
            calls w @ CallDom (CreateElement ''textarea'') # rest"
  unfolding fallback_body_def
  apply (rule bind_first_call)
   apply (simp add: createElement_def dom_call_calls)
  apply (intro appends_bind appends_steps appends_return)
  done

lemma fallback_first_call:
  "\<exists>rest. calls (snd (fallback p v w)) =
            calls w @ CallDom (CreateElement ''textarea'') # rest"
proof -
  from fallback_body_first_call[of p v w] obtain rest where
    r: "calls (snd (fallback_body p v w)) =
          calls w @ CallDom (CreateElement ''textarea'') # rest"
    by blast
  obtain x w1 where fb: "fallback_body p v w = (x, w1)" by (cases "fallback_body p v w")
  show ?thesis using r fb
    by (cases x) (auto simp: fallback_def log_call_def)
qed

text \<open>
  Once the input check has passed, the first platform call of \<^verbatim>\<open>copyText\<close> is
  \<^verbatim>\<open>writeText\<close> where the capability is there, and the creation of the textarea
  otherwise.
\<close>

lemma copyText_first_call:
  assumes "\<not> no_input v"
  shows "\<exists>rest. calls (snd (copyText p v w)) =
           calls w @ (case clipboard_cap p of
                        WriteText f \<Rightarrow> CallWriteText v
                      | _ \<Rightarrow> CallDom (CreateElement ''textarea'')) # rest"
proof (cases "clipboard_cap p")
  case NoClipboard
  then show ?thesis using fallback_first_call[of p v w] assms
    by (auto simp: copyText_def primary_def split: prod.splits)
next
  case NoWriteText
  then show ?thesis using fallback_first_call[of p v w] assms
    by (auto simp: copyText_def primary_def split: prod.splits)
next
  case (WriteText f)
  let ?w1 = "log_call (CallWriteText v) w"
  show ?thesis
  proof (cases "f v")
    case Resolves
    then show ?thesis using WriteText assms
      by (simp add: copyText_def primary_def Let_def log_call_def)
  next
    case (Rejects e)
    then show ?thesis
      using WriteText assms fallback_first_call[of p v "log_call (ConsoleWarn warn_text e) ?w1"]
      by (auto simp: copyText_def primary_def Let_def log_call_def split: prod.splits)
  next
    case (ThrowsSync e)
    then show ?thesis
      using WriteText assms fallback_first_call[of p v "log_call (ConsoleWarn warn_text e) ?w1"]
      by (auto simp: copyText_def primary_def Let_def log_call_def split: prod.splits)
  next
    case NeverSettles
    then show ?thesis using WriteText assms
      by (simp add: copyText_def primary_def Let_def log_call_def)
  qed
qed

section \<open>The input check\<close>

text \<open>
  C3. Called with no value at all (undefined or null), \<^verbatim>\<open>copyText\<close> returns the
  failure "Nothing to copy" at once: the world is left exactly as it was, so no platform
  call was made and the document was not touched. The empty string is not rejected by the
  check: the run goes on to its first platform call, \<^verbatim>\<open>writeText('')\<close> where the
  capability is there and the creation of the textarea otherwise.
\<close>

theorem copyText_absent_input:
  "copyText p JUndefined w = (Fulfilled (Failure (JStr ''Nothing to copy'')), w)
   \<and> copyText p JNull w = (Fulfilled (Failure (JStr ''Nothing to copy'')), w)
   \<and> \<not> no_input (JStr [])
   \<and> (\<exists>rest. calls (snd (copyText p (JStr []) w)) =
         calls w @ (case clipboard_cap p of
                      WriteText f \<Rightarrow> CallWriteText (JStr [])
                    | _ \<Rightarrow> CallDom (CreateElement ''textarea'')) # rest)"
proof -
  have a: "copyText p JUndefined w = (Fulfilled (Failure (JStr ''Nothing to copy'')), w)"
    by (simp add: copyText_def no_input_def)
  have b: "copyText p JNull w = (Fulfilled (Failure (JStr ''Nothing to copy'')), w)"
    by (simp add: copyText_def no_input_def)
  have c: "\<not> no_input (JStr [])" by (simp add: no_input_def)
  from a b c copyText_first_call[OF c, of p w] show ?thesis by blast
qed

section \<open>The outcome of the fallback body\<close>

lemma fst_bind_dom_call:
  "fst (bind_js (dom_call p op act) k w) =
     (case throws p op of
        Some e \<Rightarrow> Inl e
      | None \<Rightarrow> fst (k (fst (act (log_call (CallDom op) w)))
                       (snd (act (log_call (CallDom op) w)))))"
  by (simp add: bind_js_def dom_call_def split: option.splits prod.splits)

lemma step_rule:
  assumes "\<And>w'. fst (k (fst (act w')) (snd (act w'))) =
             (case first_throw p ops of Some e \<Rightarrow> Inl e | None \<Rightarrow> Inr r)"
  shows "fst (bind_js (dom_call p op act) k w) =
           (case first_throw p (op # ops) of Some e \<Rightarrow> Inl e | None \<Rightarrow> Inr r)"
  by (simp add: fst_bind_dom_call assms split: option.splits)

lemma fallback_body_fst:
  "fst (fallback_body p v w) =
     (case first_throw p fallback_ops of
        Some e \<Rightarrow> Inl e
      | None \<Rightarrow> Inr (if execCommand_ok p then Success
                     else Failure (JStr ''Copy command unsuccessful'')))"
  unfolding fallback_body_def fallback_ops_def createElement_def set_value_def set_style_def
    appendChild_def focus_def select_def execCommand_def removeChild_def
  apply (rule step_rule)+
  apply (simp add: return_js_def)
  done


lemma first_throw_None:
  "first_throw p ops = None \<longleftrightarrow> (\<forall>op \<in> set ops. throws p op = None)"
  by (induction ops) (auto split: option.splits)

lemma fallback_fst:
  "fst (fallback p v w) =
     (case fst (fallback_body p v w) of
        Inl err \<Rightarrow> Failure (catch_message err)
      | Inr r \<Rightarrow> r)"
  by (cases "fallback_body p v w") (auto simp: fallback_def split: sum.splits)

lemma catch_message_eq:
  "catch_message err = (if truthy (get_message err) then get_message err else JStr ''Copy failed'')"
  by (cases err) (auto simp: catch_message_def)

lemma fallback_outcome:
  "fst (fallback p v w) =
     (case first_throw p fallback_ops of
        Some e \<Rightarrow> Failure (catch_message e)
      | None \<Rightarrow> (if execCommand_ok p then Success
                 else Failure (JStr ''Copy command unsuccessful'')))"
  by (simp add: fallback_fst fallback_body_fst split: option.splits)

lemma copyText_fell_through:
  assumes "\<not> no_input v" and "primary p v w = (FellThrough, w1)"
  shows "copyText p v w = (Fulfilled (fst (fallback p v w1)), snd (fallback p v w1))"
  using assms by (simp add: copyText_def split: prod.splits)


text \<open>A promise of \<^verbatim>\<open>writeText\<close> that never settles leaves \<^verbatim>\<open>copyText\<close> waiting.\<close>

lemma copyText_pending:
  assumes "\<not> no_input v" and "clipboard_cap p = WriteText f" and "f v = NeverSettles"
  shows "copyText p v w = (Pending, log_call (CallWriteText v) w)"
  using assms by (simp add: copyText_def primary_def Let_def)

section \<open>No exception reaches the caller\<close>



lemma command_throws_run:
  "primary (command_throws e) v w = (FellThrough, w)"
  "fst (fallback_body (command_throws e) v w) = Inl e"
  by (simp_all add: primary_def command_throws_def fallback_body_fst fallback_ops_def)




section \<open>The outcomes of the fallback path\<close>

text \<open>
  C5. When the run reaches the fallback path and the body of its \<^verbatim>\<open>try\<close> throws, the
  outcome is a failure whose message is the message of the thrown value, or "Copy failed"
  when that value offers no message (none at all, or a falsy one).
\<close>

theorem fallback_exception_message:
  assumes "\<not> no_input v" and "primary p v w = (FellThrough, w1)"
    and "fst (fallback_body p v w1) = Inl err"
  shows "fst (copyText p v w) =
           Fulfilled (Failure (if truthy (get_message err) then get_message err
                               else JStr ''Copy failed''))"
  using assms by (simp add: copyText_fell_through fallback_fst catch_message_eq)

theorem fallback_exception_message_witness:
  "fst (copyText (command_throws invalid_state) (JStr ''hi'') page0) =
     Fulfilled (Failure (JStr ''The object is in an invalid state.''))"
proof -
  have n: "\<not> no_input (JStr ''hi'')" by (simp add: no_input_def)
  from fallback_exception_message[OF n command_throws_run(1)[of invalid_state _ page0]
      command_throws_run(2)[of invalid_state _ page0]]
  show ?thesis by (simp add: invalid_state_def)
qed








text \<open>
  C10. In the catch clause of the fallback path, "Copy failed" stands in whenever the
  message of the thrown value is falsy, in particular when it is the empty string; the
  failure returned never has the empty string as its message.
\<close>

theorem fallback_exception_falsy_message:
  assumes "\<not> no_input v" and "primary p v w = (FellThrough, w1)"
    and "fst (fallback_body p v w1) = Inl err"
  shows "(\<not> truthy (get_message err) \<longrightarrow>
            fst (copyText p v w) = Fulfilled (Failure (JStr ''Copy failed'')))
       \<and> (\<forall>ps. err = JObj ps \<and> map_of ps ''message'' = Some (JStr []) \<longrightarrow>
            fst (copyText p v w) = Fulfilled (Failure (JStr ''Copy failed'')))
       \<and> fst (copyText p v w) \<noteq> Fulfilled (Failure (JStr []))"
  using assms
  by (auto simp: copyText_fell_through fallback_fst catch_message_eq Failure_def)

theorem fallback_exception_falsy_message_witness:
  "fst (copyText (command_throws (JObj [(''message'', JStr [])])) (JStr ''hi'') page0) =
     Fulfilled (Failure (JStr ''Copy failed''))"
proof -
  have n: "\<not> no_input (JStr ''hi'')" by (simp add: no_input_def)
  from fallback_exception_falsy_message[OF n
      command_throws_run(1)[of "JObj [(''message'', JStr [])]" _ page0]
      command_throws_run(2)[of "JObj [(''message'', JStr [])]" _ page0]]
  show ?thesis by simp
qed

text \<open>
  C9. Every falsy input other than the empty string is answered with the failure
  "Nothing to copy" and the world left as it was (no platform call, on either path); the
  empty string is falsy too, and it alone goes on to a platform call.
\<close>

theorem copyText_falsy_input:
  "(\<not> truthy v \<and> v \<noteq> JStr [] \<longrightarrow>
      copyText p v w = (Fulfilled (Failure (JStr ''Nothing to copy'')), w))
   \<and> \<not> truthy (JStr [])
   \<and> calls (snd (copyText p (JStr []) w)) \<noteq> calls w"
proof -
  have c: "\<not> no_input (JStr [])" by (simp add: no_input_def)
  from copyText_first_call[OF c, of p w] have "calls (snd (copyText p (JStr []) w)) \<noteq> calls w"
    by auto
  then show ?thesis by (simp add: copyText_def no_input_def)
qed

theorem copyText_falsy_input_witness:
  "copyText (legacy_only True) JUndefined page0 = (Fulfilled (Failure (JStr ''Nothing to copy'')), page0)
   \<and> copyText (legacy_only True) JNull page0 = (Fulfilled (Failure (JStr ''Nothing to copy'')), page0)
   \<and> copyText (legacy_only True) (JNum (Fin_num 0 0)) page0 = (Fulfilled (Failure (JStr ''Nothing to copy'')), page0)
   \<and> copyText (legacy_only True) (JNum NaN) page0 = (Fulfilled (Failure (JStr ''Nothing to copy'')), page0)
   \<and> copyText (legacy_only True) (JBool False) page0 = (Fulfilled (Failure (JStr ''Nothing to copy'')), page0)"
  using copyText_falsy_input[of JUndefined "legacy_only True" page0]
    copyText_falsy_input[of JNull "legacy_only True" page0]
    copyText_falsy_input[of "JNum (Fin_num 0 0)" "legacy_only True" page0]
    copyText_falsy_input[of "JNum NaN" "legacy_only True" page0]
    copyText_falsy_input[of "JBool False" "legacy_only True" page0]
  by simp

lemma first_throw_cap [simp]:
  "first_throw (p\<lparr>clipboard_cap := c\<rparr>) ops = first_throw p ops"
  by (induction ops) (auto split: option.splits)

lemma copyText_without_clipboard:
  assumes "\<not> no_input v"
  shows "fst (copyText (p\<lparr>clipboard_cap := NoClipboard\<rparr>) v w) = Fulfilled (fst (fallback p v w0))"
proof -
  have "primary (p\<lparr>clipboard_cap := NoClipboard\<rparr>) v w = (FellThrough, w)"
    by (simp add: primary_def)
  from copyText_fell_through[OF assms this] show ?thesis
    by (simp add: fallback_outcome)
qed

section \<open>The clipboard API comes first\<close>

text \<open>
  C4. With the capability there, the first platform call is \<^verbatim>\<open>writeText(text)\<close>. If it
  resolves, the outcome is success and nothing else happened: that call is the only one
  recorded, the document body is as before, so no textarea was created or inserted. If it
  rejects (or throws), the error goes to the console warning only: the outcome is the one
  the same platform gives without any clipboard capability, and the fallback starts right
  after the warning.
\<close>

theorem primary_first:
  assumes "\<not> no_input v" and "clipboard_cap p = WriteText f"
  shows "(\<exists>rest. calls (snd (copyText p v w)) = calls w @ CallWriteText v # rest)
     \<and> (f v = Resolves \<longrightarrow>
          copyText p v w = (Fulfilled Success, (log_call (CallWriteText v) w)\<lparr>clipboard := Some v\<rparr>)
          \<and> calls (snd (copyText p v w)) = calls w @ [CallWriteText v]
          \<and> body (snd (copyText p v w)) = body w)
     \<and> (\<forall>e. f v = Rejects e \<or> f v = ThrowsSync e \<longrightarrow>
          fst (copyText p v w) = fst (copyText (p\<lparr>clipboard_cap := NoClipboard\<rparr>) v w)
          \<and> (\<exists>rest. calls (snd (copyText p v w)) =
                calls w @ [CallWriteText v, ConsoleWarn warn_text e,
                           CallDom (CreateElement ''textarea'')] @ rest))"
proof -
  have a: "\<exists>rest. calls (snd (copyText p v w)) = calls w @ CallWriteText v # rest"
    using copyText_first_call[OF assms(1), of p w] assms(2) by simp
  have b: "copyText p v w = (Fulfilled Success, (log_call (CallWriteText v) w)\<lparr>clipboard := Some v\<rparr>)
          \<and> calls (snd (copyText p v w)) = calls w @ [CallWriteText v]
          \<and> body (snd (copyText p v w)) = body w" if "f v = Resolves"
    using assms that by (simp add: copyText_def primary_def Let_def log_call_def)
  have c: "fst (copyText p v w) = fst (copyText (p\<lparr>clipboard_cap := NoClipboard\<rparr>) v w)
          \<and> (\<exists>rest. calls (snd (copyText p v w)) =
                calls w @ [CallWriteText v, ConsoleWarn warn_text e,
                           CallDom (CreateElement ''textarea'')] @ rest)"
    if "f v = Rejects e \<or> f v = ThrowsSync e" for e
  proof -
    let ?w1 = "log_call (ConsoleWarn warn_text e) (log_call (CallWriteText v) w)"
    have pr: "primary p v w = (FellThrough, ?w1)"
      using that assms(2) by (auto simp: primary_def Let_def)
    have ct: "copyText p v w = (Fulfilled (fst (fallback p v ?w1)), snd (fallback p v ?w1))"
      by (rule copyText_fell_through[OF assms(1) pr])
    have o: "fst (copyText p v w) = fst (copyText (p\<lparr>clipboard_cap := NoClipboard\<rparr>) v w)"
      using ct copyText_without_clipboard[OF assms(1), of p w ?w1] by simp
    from fallback_first_call[of p v ?w1] obtain rest where
      "calls (snd (fallback p v ?w1)) = calls ?w1 @ CallDom (CreateElement ''textarea'') # rest"
      by blast
    then have "calls (snd (copyText p v w)) =
                calls w @ [CallWriteText v, ConsoleWarn warn_text e,
                           CallDom (CreateElement ''textarea'')] @ rest"
      using ct by (simp add: log_call_def)
    with o show ?thesis by blast
  qed
  from a b c show ?thesis by blast
qed

theorem primary_first_witness:
  "copyText (modern Resolves) (JStr ''hi'') page0 =
     (Fulfilled Success, page0\<lparr>clipboard := Some (JStr ''hi''), calls := [CallWriteText (JStr ''hi'')]\<rparr>)
   \<and> fst (copyText (modern (Rejects denied)) (JStr ''hi'') page0) = Fulfilled Success"
proof -
  have n: "\<not> no_input (JStr ''hi'')" by (simp add: no_input_def)
  have m: "clipboard_cap (modern r) = WriteText (\<lambda>v. r)" for r by (simp add: modern_def)
  have l: "fst (copyText ((modern (Rejects denied))\<lparr>clipboard_cap := NoClipboard\<rparr>) (JStr ''hi'') page0)
             = Fulfilled Success"
    using copyText_without_clipboard[OF n, of "modern (Rejects denied)" page0 page0]
    by (simp add: fallback_outcome fallback_ops_def modern_def)
  from primary_first[OF n m, of Resolves page0] primary_first[OF n m, of "Rejects denied" page0] l
  show ?thesis by (simp add: log_call_def page0_def)
qed

section \<open>The temporary textarea\<close>

lemma bind_dom_call_ok:
  "throws p op = None \<Longrightarrow>
   bind_js (dom_call p op act) k w =
     k (fst (act (log_call (CallDom op) w))) (snd (act (log_call (CallDom op) w)))"
  by (simp add: bind_js_def dom_call_def split: prod.splits)

lemma bind_dom_call_throw:
  "throws p op = Some e \<Longrightarrow>
   bind_js (dom_call p op act) k w = (Inl e, log_call (CallDom op) w)"
  by (simp add: bind_js_def dom_call_def)

lemma filter_fresh:
  assumes "\<forall>n \<in> set ns. ident n < i"
  shows "filter (\<lambda>m. ident m \<noteq> i) ns = ns"
  using assms by (induction ns) auto

lemma fallback_body_removes:
  assumes "fresh_ids w" and "first_throw p fallback_ops = None"
  shows "body (snd (fallback_body p v w)) = body w"
proof -
  have t: "\<forall>op \<in> set fallback_ops. throws p op = None"
    using assms(2) by (simp add: first_throw_None)
  have f: "filter (\<lambda>m. ident m \<noteq> next_node w) (body w) = body w"
    using assms(1) by (simp add: fresh_ids_def filter_fresh)
  show ?thesis
    using t f
    unfolding fallback_body_def fallback_ops_def createElement_def set_value_def set_style_def
      appendChild_def focus_def select_def execCommand_def removeChild_def
    by (simp add: bind_dom_call_ok return_js_def log_call_def)
qed

lemma fallback_ops_split: "fallback_ops = before_insert @ after_insert"
  by (simp add: fallback_ops_def before_insert_def after_insert_def)

lemma first_throw_append:
  "first_throw p (xs @ ys) = (case first_throw p xs of Some e \<Rightarrow> Some e | None \<Rightarrow> first_throw p ys)"
  by (induction xs) (auto split: option.splits)

lemma fallback_body_throw_before_insert:
  assumes "first_throw p before_insert = Some e"
  shows "body (snd (fallback_body p v w)) = body w"
proof -
  from assms consider
      "throws p (CreateElement ''textarea'') = Some e"
    | "throws p (CreateElement ''textarea'') = None" "throws p SetValue = Some e"
    | "throws p (CreateElement ''textarea'') = None" "throws p SetValue = None"
      "throws p (SetStyle ''position'' ''fixed'') = Some e"
    | "throws p (CreateElement ''textarea'') = None" "throws p SetValue = None"
      "throws p (SetStyle ''position'' ''fixed'') = None"
      "throws p (SetStyle ''left'' ''-9999px'') = Some e"
    | "throws p (CreateElement ''textarea'') = None" "throws p SetValue = None"
      "throws p (SetStyle ''position'' ''fixed'') = None"
      "throws p (SetStyle ''left'' ''-9999px'') = None"
      "throws p (SetStyle ''top'' ''0'') = Some e"
    | "throws p (CreateElement ''textarea'') = None" "throws p SetValue = None"
      "throws p (SetStyle ''position'' ''fixed'') = None"
      "throws p (SetStyle ''left'' ''-9999px'') = None"
      "throws p (SetStyle ''top'' ''0'') = None"
      "throws p AppendChild = Some e"
    by (auto simp: before_insert_def split: option.splits)
  then show ?thesis
    unfolding fallback_body_def createElement_def set_value_def set_style_def
      appendChild_def focus_def select_def execCommand_def removeChild_def
    by cases (simp_all add: bind_dom_call_ok bind_dom_call_throw log_call_def)
qed

lemma fallback_body_throw_after_insert:
  assumes "first_throw p before_insert = None" and "first_throw p after_insert = Some e"
  shows "body (snd (fallback_body p v w)) = body w @ [textarea_of w v]"
proof -
  have t: "\<forall>op \<in> set before_insert. throws p op = None"
    using assms(1) by (simp only: first_throw_None)
  from assms(2) consider
      "throws p Focus = Some e"
    | "throws p Focus = None" "throws p Select = Some e"
    | "throws p Focus = None" "throws p Select = None"
      "throws p (ExecCommand ''copy'') = Some e"
    | "throws p Focus = None" "throws p Select = None"
      "throws p (ExecCommand ''copy'') = None" "throws p RemoveChild = Some e"
    by (auto simp: after_insert_def split: option.splits)
  then show ?thesis
    using t
    unfolding fallback_body_def createElement_def set_value_def set_style_def
      appendChild_def focus_def select_def execCommand_def removeChild_def before_insert_def
    by cases
      (simp_all add: bind_dom_call_ok bind_dom_call_throw log_call_def textarea_of_def)
qed

text \<open>
  Where the fallback body leaves the document: the textarea stays exactly when it was
  inserted and a later call of the sequence throws.
\<close>

lemma fallback_body_body:
  assumes "fresh_ids w"
  shows "body (snd (fallback_body p v w)) =
           (if first_throw p before_insert = None \<and> first_throw p after_insert \<noteq> None
            then body w @ [textarea_of w v] else body w)"
proof (cases "first_throw p before_insert")
  case (Some e)
  then show ?thesis using fallback_body_throw_before_insert by simp
next
  case None
  show ?thesis
  proof (cases "first_throw p after_insert")
    case (Some e)
    then show ?thesis using None fallback_body_throw_after_insert by simp
  next
    case n: None
    have "first_throw p fallback_ops = None"
      using None n by (simp add: fallback_ops_split first_throw_append)
    then show ?thesis using None n fallback_body_removes[OF assms] by simp
  qed
qed

lemma fallback_body_world:
  "body (snd (fallback p v w)) = body (snd (fallback_body p v w))"
  by (cases "fallback_body p v w") (auto simp: fallback_def log_call_def split: sum.splits)

text \<open>
  C1. The claim is that the textarea is gone from the document when the call completes,
  on every path. The lemmas above give the paths of the code: when no call of the
  fallback sequence throws, or one throws before the insertion, the body is as it was;
  when a call after the insertion throws, \<^verbatim>\<open>execCommand('copy')\<close> say, line 49 is
  skipped and the textarea stays. Here is such a run on the empty page, without clipboard
  API: the outcome is the failure with the message of the exception, and the body holds
  the textarea.
\<close>

theorem copyText_textarea_left_behind:
  "fst (copyText (command_throws invalid_state) (JStr ''hi'') page0) =
     Fulfilled (Failure (JStr ''The object is in an invalid state.''))
   \<and> body page0 = []
   \<and> body (snd (copyText (command_throws invalid_state) (JStr ''hi'') page0)) =
       [\<lparr>ident = 0, tag = ''textarea'', nvalue = JStr ''hi'',
         style = [(''position'', ''fixed''), (''left'', ''-9999px''), (''top'', ''0'')]\<rparr>]"
proof -
  let ?p = "command_throws invalid_state"
  have n: "\<not> no_input (JStr ''hi'')" by (simp add: no_input_def)
  have pr: "primary ?p (JStr ''hi'') page0 = (FellThrough, page0)"
    by (rule command_throws_run(1))
  have ct: "copyText ?p (JStr ''hi'') page0 =
      (Fulfilled (fst (fallback ?p (JStr ''hi'') page0)), snd (fallback ?p (JStr ''hi'') page0))"
    by (rule copyText_fell_through[OF n pr])
  have a: "fst (copyText ?p (JStr ''hi'') page0) =
     Fulfilled (Failure (JStr ''The object is in an invalid state.''))"
    using ct by (simp add: fallback_outcome fallback_ops_def command_throws_def
        catch_message_eq invalid_state_def)
  have b: "body (snd (fallback_body ?p (JStr ''hi'') page0)) =
       body page0 @ [textarea_of page0 (JStr ''hi'')]"
    by (rule fallback_body_throw_after_insert[where e = invalid_state])
       (simp_all add: command_throws_def before_insert_def after_insert_def)
  from a b ct show ?thesis
    by (simp add: fallback_body_world textarea_of_def page0_def)
qed

section \<open>The "copy all" handler\<close>

lemma combine_spec: "combine a b c d = spec_combined a b c d"
  by (simp add: combine_def spec_combined_def)

lemma join_empty:
  "\<forall>s \<in> set ss. s \<noteq> [] \<Longrightarrow> join sep ss = [] \<longleftrightarrow> ss = []"
  by (induction sep ss rule: join.induct) auto

lemma spec_combined_empty:
  "spec_combined a b c d = [] \<longleftrightarrow> a = [] \<and> b = [] \<and> c = [] \<and> d = []"
  unfolding spec_combined_def by (subst join_empty) auto

text \<open>
  C7. Given what the four sources yield, the text the handler builds is the combined text
  of the specification: the non-empty ones in the order short text, email, message, code,
  joined by a blank line, the code behind "Code:" and a newline. When all four are empty
  the handler shows "Nothing to copy." and makes no call to \<^verbatim>\<open>copyText\<close>; otherwise
  it hands exactly that text to \<^verbatim>\<open>copyText\<close> and reports the outcome.
\<close>

theorem copyAll_combined:
  assumes "readTextFromTarget doc (Selector ''#shortText'') = Inr a"
    and "readTextFromTarget doc (Selector ''#email'') = Inr b"
    and "readTextFromTarget doc (Selector ''#message'') = Inr c"
    and "readTextFromTarget doc (Selector ''#codeBlock'') = Inr d"
  shows "combine a b c d = spec_combined a b c d
     \<and> copyAll_click doc p w =
         (if a = [] \<and> b = [] \<and> c = [] \<and> d = []
          then (Fulfilled (), showStatus ''Nothing to copy.'' False (log_call PreventDefault w))
          else report p (copyText p (JStr (spec_combined a b c d)) (log_call PreventDefault w)))"
  using assms spec_combined_empty[of a b c d]
  by (simp add: copyAll_click_def Let_def combine_spec)

lemma form_doc_reads:
  "readTextFromTarget form_doc (Selector ''#shortText'') = Inr ''hello''"
  "readTextFromTarget form_doc (Selector ''#email'') = Inr []"
  "readTextFromTarget form_doc (Selector ''#message'') = Inr []"
  "readTextFromTarget form_doc (Selector ''#codeBlock'') = Inr ''world''"
  by (simp_all add: readTextFromTarget_def resolve_def form_doc_def field_def container_def
      or_str_def)

lemma blank_doc_reads: "readTextFromTarget blank_doc (Selector s) = Inr []"
  by (simp add: readTextFromTarget_def resolve_def blank_doc_def)

theorem copyAll_combined_witness:
  "combine ''hello'' [] [] ''world'' = ''hello'' @ newline @ newline @ ''Code:'' @ newline @ ''world''
   \<and> copyAll_click form_doc (legacy_only True) page0 =
       report (legacy_only True)
         (copyText (legacy_only True)
            (JStr (''hello'' @ newline @ newline @ ''Code:'' @ newline @ ''world''))
            (log_call PreventDefault page0))
   \<and> copyAll_click blank_doc (legacy_only True) page0 =
       (Fulfilled (), showStatus ''Nothing to copy.'' False (log_call PreventDefault page0))"
  using copyAll_combined[OF form_doc_reads, of "legacy_only True" page0]
    copyAll_combined[OF blank_doc_reads blank_doc_reads blank_doc_reads blank_doc_reads,
      of "legacy_only True" page0]
  by (simp add: spec_combined_def)

section \<open>readTextFromTarget\<close>

text \<open>
  C8, as stated, says \<^verbatim>\<open>readTextFromTarget\<close> never raises. Given a selector string, it
  calls \<^verbatim>\<open>querySelector\<close> outside any \<^verbatim>\<open>try\<close>, and that call throws at a selector
  that is not valid, such as the empty string.
\<close>

theorem readTextFromTarget_raises:
  "readTextFromTarget form_doc (Selector []) = Inl selector_error"
  by (simp add: readTextFromTarget_def resolve_def form_doc_def)

text \<open>
  C8, amended. \<^verbatim>\<open>readTextFromTarget\<close> raises exactly when it is given a selector string
  at which \<^verbatim>\<open>querySelector\<close> raises, and then it raises that exception. Otherwise: when
  the source resolves to no element the result is the empty string; for an element the
  result is its value if it is an INPUT or a TEXTAREA, and else its text content, or its
  inner text if that is empty, or the empty string if both are.
\<close>

theorem readTextFromTarget_cases:
  "(readTextFromTarget doc src = Inl e \<longleftrightarrow> (\<exists>s. src = Selector s \<and> querySelector doc s = Inl e))
   \<and> (resolve doc src = Inr None \<longrightarrow> readTextFromTarget doc src = Inr [])
   \<and> (resolve doc src = Inr (Some el) \<longrightarrow>
        readTextFromTarget doc src =
          Inr (if tagName el = ''INPUT'' \<or> tagName el = ''TEXTAREA'' then el_value el
               else if textContent el \<noteq> [] then textContent el
               else if innerText el \<noteq> [] then innerText el
               else []))"
  by (cases src)
     (auto simp: readTextFromTarget_def resolve_def or_str_def split: sum.splits option.splits)

theorem readTextFromTarget_cases_witness:
  "readTextFromTarget form_doc (Ref (Some (field ''INPUT'' ''hello''))) = Inr ''hello''
   \<and> readTextFromTarget form_doc (Ref (Some (container ''DIV'' ''world''))) = Inr ''world''
   \<and> readTextFromTarget form_doc (Ref None) = Inr []
   \<and> readTextFromTarget form_doc (Selector ''#missing'') = Inr []"
  using readTextFromTarget_cases[of form_doc "Ref (Some (field ''INPUT'' ''hello''))" _ "field ''INPUT'' ''hello''"]
    readTextFromTarget_cases[of form_doc "Ref (Some (container ''DIV'' ''world''))" _ "container ''DIV'' ''world''"]
    readTextFromTarget_cases[of form_doc "Ref None"]
    readTextFromTarget_cases[of form_doc "Selector ''#missing''"]
  by (simp add: resolve_def form_doc_def field_def container_def)

end
